theory Spec2Isabelle
  imports Main
begin

section \<open>The LDAP object data source of terraform-provider-ldap\<close>

text \<open>
  The repository has two source files: \<^verbatim>\<open>internal/provider/tools.go\<close> with
  \<^verbatim>\<open>GetEntry\<close>, and the data source with its model, its schema and \<^verbatim>\<open>Read\<close>.
  \<^verbatim>\<open>Read\<close> turns the configuration into a search triple (base DN, scope, filter),
  calls \<^verbatim>\<open>GetEntry\<close>, and stores the single entry it gets into the response state.
  Go returns \<^verbatim>\<open>(value, error)\<close>; the model returns a sum with the error on the left.
\<close>

subsection \<open>Values of the plugin framework\<close>

text \<open>
  A \<^verbatim>\<open>types.String\<close> is null, unknown or a known string; \<^verbatim>\<open>ValueString\<close> gives
  the empty string for the first two.
\<close>

datatype tf_string = StringNull | StringUnknown | StringValue string

fun IsNull :: "tf_string \<Rightarrow> bool" where
  "IsNull StringNull = True"
| "IsNull StringUnknown = False"
| "IsNull (StringValue s) = False"

fun IsUnknown :: "tf_string \<Rightarrow> bool" where
  "IsUnknown StringNull = False"
| "IsUnknown StringUnknown = True"
| "IsUnknown (StringValue s) = False"

fun ValueString :: "tf_string \<Rightarrow> string" where
  "ValueString StringNull = []"
| "ValueString StringUnknown = []"
| "ValueString (StringValue s) = s"

text \<open>
  Diagnostics are a list of severity, summary and detail. The framework's \<^verbatim>\<open>Append\<close>
  skips a diagnostic that the list already contains; \<^verbatim>\<open>AddError\<close> appends one error;
  \<^verbatim>\<open>HasError\<close> looks for a diagnostic of severity error.
\<close>

datatype Severity = SeverityError | SeverityWarning

datatype Diagnostic = Diagnostic (Severity: Severity) (Summary: string) (Detail: string)

type_synonym Diagnostics = "Diagnostic list"

fun Append :: "Diagnostics \<Rightarrow> Diagnostics \<Rightarrow> Diagnostics" where
  "Append diags [] = diags"
| "Append diags (d # ds) = Append (if List.member diags d then diags else diags @ [d]) ds"

definition AddError :: "Diagnostics \<Rightarrow> string \<Rightarrow> string \<Rightarrow> Diagnostics" where
  "AddError diags summary detail = Append diags [Diagnostic SeverityError summary detail]"

fun HasError :: "Diagnostics \<Rightarrow> bool" where
  "HasError [] = False"
| "HasError (d # ds) = (if Severity d = SeverityError then True else HasError ds)"

subsection \<open>The data source model and the search triple\<close>

text \<open>
  The struct \<^verbatim>\<open>LDAPObjectDatasourceModel\<close>, field by field. \<^verbatim>\<open>Id\<close> is suffixed (HOL has
  a constant of that name). The list and the map of the last two fields are decoded by
  \<^verbatim>\<open>Read\<close> into locals it never reads again, so their element types are kept simple.
\<close>

record LDAPObjectDatasourceModel =
  Id_attr :: tf_string
  DN :: tf_string
  BaseDN :: tf_string
  Scope :: tf_string
  Filter :: tf_string
  ObjectClasses :: "string list option"
  Attributes :: "(string \<times> string list) list option"

text \<open>The scope constants of go-ldap, which \<^verbatim>\<open>Read\<close> assigns to an \<^verbatim>\<open>int\<close>.\<close>

definition ScopeBaseObject :: int where
  "ScopeBaseObject = 0"

definition ScopeSingleLevel :: int where
  "ScopeSingleLevel = 1"

definition ScopeWholeSubtree :: int where
  "ScopeWholeSubtree = 2"

text \<open>
  Lines 119 to 148 of \<^verbatim>\<open>Read\<close>, one definition for each of the three locals.
  \<^verbatim>\<open>var scope int\<close> starts at Go's zero value, and the switch has no default branch:
  a name that is none of the three leaves the \<open>0\<close>.
\<close>

definition Read_baseDn :: "LDAPObjectDatasourceModel \<Rightarrow> string" where
  "Read_baseDn data =
     (if IsUnknown (DN data) \<or> IsNull (DN data) then ValueString (BaseDN data)
      else ValueString (DN data))"

definition Read_scope :: "LDAPObjectDatasourceModel \<Rightarrow> int" where
  "Read_scope data =
     (if IsUnknown (Scope data) \<or> IsNull (Scope data) then ScopeBaseObject
      else if ValueString (Scope data) = ''baseObject'' then ScopeBaseObject
      else if ValueString (Scope data) = ''singleLevel'' then ScopeSingleLevel
      else if ValueString (Scope data) = ''wholeSubtree'' then ScopeWholeSubtree
      else 0)"

definition Read_filter :: "LDAPObjectDatasourceModel \<Rightarrow> string" where
  "Read_filter data =
     (if IsUnknown (Filter data) \<or> IsNull (Filter data) then ''(&)''
      else ValueString (Filter data))"

subsection \<open>The directory and \<^verbatim>\<open>GetEntry\<close>\<close>

text \<open>
  An entry of go-ldap is a DN and a sequence of attributes, each a name and its values.
  A search request carries the nine arguments of \<^verbatim>\<open>ldap.NewSearchRequest\<close> in their
  order. A connection is what its \<^verbatim>\<open>Search\<close> answers to a request: an error or a result
  with its entries. A Go error is read only through its message.
\<close>

record EntryAttribute =
  Name :: string
  Values :: "string list"

datatype Entry = Entry (Entry_DN: string) (Entry_Attributes: "EntryAttribute list")

datatype Control = Control string

datatype SearchRequest =
  NewSearchRequest string int int int int bool string "string list" "Control list"

datatype SearchResult = SearchResult (Entries: "Entry list")

datatype go_error = go_error (Error: string)

type_synonym Conn = "SearchRequest \<Rightarrow> go_error + SearchResult"

text \<open>\<^verbatim>\<open>%d\<close> of \<^verbatim>\<open>fmt.Errorf\<close> on a length: the decimal digits, no sign, no padding.\<close>

definition digit :: "nat \<Rightarrow> char" where
  "digit n = char_of (48 + n)"

function fmt_d :: "nat \<Rightarrow> string" where
  "fmt_d n = (if n < 10 then [digit n] else fmt_d (n div 10) @ [digit (n mod 10)])"
  by pat_completeness auto
termination
  by (relation "measure (\<lambda>n. n)") auto

declare fmt_d.simps [simp del]

definition Errorf_search_returned :: "nat \<Rightarrow> go_error" where
  "Errorf_search_returned n = go_error (''search returned '' @ fmt_d n @ '' results'')"

definition GetEntry :: "Conn \<Rightarrow> string \<Rightarrow> int \<Rightarrow> string \<Rightarrow> go_error + Entry" where
  "GetEntry conn baseDn scope filter_str =
     (let s = NewSearchRequest baseDn scope 0 0 0 False filter_str [] [] in
      case conn s of
        Inl err \<Rightarrow> Inl err
      | Inr result \<Rightarrow>
          if length (Entries result) \<noteq> 1
          then Inl (Errorf_search_returned (length (Entries result)))
          else Inr (Entries result ! 0))"

subsection \<open>The response state and \<^verbatim>\<open>Read\<close>\<close>

text \<open>
  The state holds one value for each attribute of the schema; the list and the map are
  \<open>None\<close> while they are null. \<^verbatim>\<open>SetAttribute\<close> overwrites the value at a path and
  creates the map when a key is set in a null map. At a path or with a value that the
  schema does not have it changes nothing and reports diagnostics, which \<^verbatim>\<open>Read\<close>
  drops.
\<close>

record State =
  state_id :: tf_string
  state_dn :: tf_string
  state_base_dn :: tf_string
  state_scope :: tf_string
  state_filter :: tf_string
  state_object_classes :: "string list option"
  state_attributes :: "(string \<rightharpoonup> string list) option"

datatype Path = Root string | AtMapKey Path string

datatype go_value = GoString string | GoStrings "string list"

definition map_of_state :: "State \<Rightarrow> (string \<rightharpoonup> string list)" where
  "map_of_state st = (case state_attributes st of None \<Rightarrow> Map.empty | Some m \<Rightarrow> m)"

fun SetAttribute :: "State \<Rightarrow> Path \<Rightarrow> go_value \<Rightarrow> State" where
  "SetAttribute st (Root p) (GoString s) =
     (if p = ''id'' then st\<lparr>state_id := StringValue s\<rparr>
      else if p = ''dn'' then st\<lparr>state_dn := StringValue s\<rparr>
      else if p = ''base_dn'' then st\<lparr>state_base_dn := StringValue s\<rparr>
      else if p = ''scope'' then st\<lparr>state_scope := StringValue s\<rparr>
      else if p = ''filter'' then st\<lparr>state_filter := StringValue s\<rparr>
      else st)"
| "SetAttribute st (Root p) (GoStrings vs) =
     (if p = ''object_classes'' then st\<lparr>state_object_classes := Some vs\<rparr> else st)"
| "SetAttribute st (AtMapKey (Root p) k) (GoStrings vs) =
     (if p = ''attributes'' then st\<lparr>state_attributes := Some ((map_of_state st)(k \<mapsto> vs))\<rparr>
      else st)"
| "SetAttribute st (AtMapKey p k) v = st"

text \<open>The body of the loop of lines 158 to 164, and the loop.\<close>

definition Read_attribute :: "State \<Rightarrow> EntryAttribute \<Rightarrow> State" where
  "Read_attribute st attribute =
     (if Name attribute = ''objectClass''
      then SetAttribute st (Root ''object_classes'') (GoStrings (Values attribute))
      else SetAttribute st (AtMapKey (Root ''attributes'') (Name attribute))
             (GoStrings (Values attribute)))"

fun Read_attributes :: "State \<Rightarrow> EntryAttribute list \<Rightarrow> State" where
  "Read_attributes st [] = st"
| "Read_attributes st (attribute # rest) = Read_attributes (Read_attribute st attribute) rest"

text \<open>Lines 156 to 164: what \<^verbatim>\<open>Read\<close> does with the entry it got.\<close>

definition Read_entry :: "State \<Rightarrow> Entry \<Rightarrow> State" where
  "Read_entry st entry =
     (let st1 = SetAttribute st (Root ''dn'') (GoString (Entry_DN entry));
          st2 = SetAttribute st1 (Root ''id'') (GoString (Entry_DN entry))
      in Read_attributes st2 (Entry_Attributes entry))"

text \<open>
  The request gives what the framework's decoding gives: the model that
  \<^verbatim>\<open>request.Config.Get\<close> fills, and the diagnostics of that call and of the two
  \<^verbatim>\<open>ElementsAs\<close> calls. The data source holds the connection that \<^verbatim>\<open>Configure\<close>
  stored.
\<close>

record LDAPObjectDataSource =
  conn :: Conn

record ReadRequest =
  Config_Get :: LDAPObjectDatasourceModel
  Config_Get_diags :: Diagnostics
  Attributes_ElementsAs_diags :: Diagnostics
  ObjectClasses_ElementsAs_diags :: Diagnostics

record ReadResponse =
  Diagnostics :: Diagnostics
  State :: State

text \<open>Lines 108 to 114: the three \<^verbatim>\<open>Append\<close> calls on the response's diagnostics.\<close>

definition Read_diags :: "ReadRequest \<Rightarrow> ReadResponse \<Rightarrow> Diagnostics" where
  "Read_diags request response =
     Append (Append (Append (Diagnostics response) (Config_Get_diags request))
       (Attributes_ElementsAs_diags request)) (ObjectClasses_ElementsAs_diags request)"

definition Read :: "LDAPObjectDataSource \<Rightarrow> ReadRequest \<Rightarrow> ReadResponse \<Rightarrow> ReadResponse" where
  "Read L request response =
     (let data = Config_Get request; diags = Read_diags request response
      in if HasError diags then response\<lparr>Diagnostics := diags\<rparr>
         else
           (case GetEntry (conn L) (Read_baseDn data) (Read_scope data) (Read_filter data) of
              Inl err \<Rightarrow>
                response\<lparr>Diagnostics := AddError diags ''Can not read entry'' (Error err)\<rparr>
            | Inr entry \<Rightarrow>
                response\<lparr>Diagnostics := diags, State := Read_entry (State response) entry\<rparr>))"

subsection \<open>Concrete inputs\<close>

text \<open>
  A connection whose \<^verbatim>\<open>Search\<close> gives the same answer to every request; a request
  whose decoding gives the model and no diagnostics; the state with every attribute null,
  and the response that holds it and no diagnostics.
\<close>

definition answering :: "go_error + SearchResult \<Rightarrow> Conn" where
  "answering r s = r"

definition request_of :: "LDAPObjectDatasourceModel \<Rightarrow> ReadRequest" where
  "request_of data =
     \<lparr>Config_Get = data, Config_Get_diags = [], Attributes_ElementsAs_diags = [],
      ObjectClasses_ElementsAs_diags = []\<rparr>"

definition null_State :: State where
  "null_State =
     \<lparr>state_id = StringNull, state_dn = StringNull, state_base_dn = StringNull,
      state_scope = StringNull, state_filter = StringNull, state_object_classes = None,
      state_attributes = None\<rparr>"

definition empty_response :: ReadResponse where
  "empty_response = \<lparr>Diagnostics = [], State = null_State\<rparr>"

section \<open>Properties\<close>

subsection \<open>Diagnostics\<close>

lemma HasError_snoc: "HasError (ds @ [d]) = (HasError ds \<or> Severity d = SeverityError)"
  by (induction ds) auto

lemma HasError_member: "d \<in> set ds \<Longrightarrow> Severity d = SeverityError \<Longrightarrow> HasError ds"
  by (induction ds) auto

lemma HasError_Append: "HasError (Append diags ds) = (HasError diags \<or> HasError ds)"
proof (induction ds arbitrary: diags)
  case Nil
  show ?case by simp
next
  case (Cons d ds)
  show ?case
  proof (cases "d \<in> set diags")
    case True
    then have "Severity d = SeverityError \<Longrightarrow> HasError diags"
      by (rule HasError_member)
    with True Cons show ?thesis by auto
  next
    case False
    with Cons show ?thesis by (auto simp: HasError_snoc)
  qed
qed

lemma HasError_AddError: "HasError (AddError diags summary detail)"
  by (simp add: AddError_def HasError_Append del: Append.simps)

subsection \<open>The decimal digits of a count\<close>

lemma digit_inj:
  assumes "m < 10" and "n < 10"
  shows "(digit m = digit n) = (m = n)"
proof
  assume "digit m = digit n"
  then have "(of_char (digit m) :: nat) = of_char (digit n)"
    by simp
  then have eq: "(48 + m) mod 256 = (48 + n) mod 256"
    by (simp only: digit_def of_char_of)
  have a: "(48 + m) mod 256 = 48 + m"
    using assms(1) by (intro mod_less) simp
  have b: "(48 + n) mod 256 = 48 + n"
    using assms(2) by (intro mod_less) simp
  from eq have "48 + m = 48 + n"
    unfolding a b .
  then show "m = n" by simp
next
  assume "m = n"
  then show "digit m = digit n" by simp
qed

lemma fmt_d_not_Nil: "fmt_d n \<noteq> []"
  by (subst fmt_d.simps) simp

text \<open>Two counts with the same digits are the same count.\<close>

lemma fmt_d_inj: "fmt_d m = fmt_d n \<Longrightarrow> m = n"
proof (induction m arbitrary: n rule: fmt_d.induct)
  case (1 m)
  show ?case
  proof (cases "m < 10")
    case m: True
    show ?thesis
    proof (cases "n < 10")
      case True
      with m "1.prems" have "digit m = digit n"
        by (simp add: fmt_d.simps [of m] fmt_d.simps [of n])
      with m True show ?thesis by (simp only: digit_inj)
    next
      case False
      with m "1.prems" have "[digit m] = fmt_d (n div 10) @ [digit (n mod 10)]"
        by (simp add: fmt_d.simps [of m] fmt_d.simps [of n])
      then have "fmt_d (n div 10) = []" by (simp add: Cons_eq_append_conv)
      then show ?thesis using fmt_d_not_Nil by simp
    qed
  next
    case m: False
    show ?thesis
    proof (cases "n < 10")
      case True
      with m "1.prems" have "fmt_d (m div 10) @ [digit (m mod 10)] = [digit n]"
        by (simp add: fmt_d.simps [of m] fmt_d.simps [of n])
      then have "fmt_d (m div 10) = []" by (simp add: append_eq_Cons_conv)
      then show ?thesis using fmt_d_not_Nil by simp
    next
      case False
      with m "1.prems" have eq: "fmt_d (m div 10) = fmt_d (n div 10)"
        and dg: "digit (m mod 10) = digit (n mod 10)"
        by (simp_all add: fmt_d.simps [of m] fmt_d.simps [of n])
      from m eq have "m div 10 = n div 10" by (rule "1.IH")
      moreover from dg have "m mod 10 = n mod 10" by (simp add: digit_inj)
      ultimately show ?thesis by (metis div_mult_mod_eq)
    qed
  qed
qed

lemma fmt_d_0: "fmt_d 0 = ''0''"
  by code_simp

lemma fmt_d_2: "fmt_d 2 = ''2''"
  by code_simp

subsection \<open>The search triple\<close>

text \<open>
  Claim C1, as the code has it. When the configuration gives \<^verbatim>\<open>dn\<close>, the location of
  the triple is that DN, whatever \<^verbatim>\<open>base_dn\<close> and the other fields hold. Its scope and
  its filter do not depend on \<^verbatim>\<open>dn\<close>: with neither given (the schema's \<^verbatim>\<open>ConflictsWith\<close>
  validators reject both next to \<^verbatim>\<open>dn\<close>) they are the base object scope and the filter
  \<^verbatim>\<open>(&)\<close>; a scope given by one of its three names and a filter that is given are not
  overridden but used.
\<close>

theorem Read_by_dn:
  assumes "DN data = StringValue identifier"
  shows "Read_baseDn data = identifier
    \<and> (IsUnknown (Scope data) \<or> IsNull (Scope data) \<longrightarrow> Read_scope data = ScopeBaseObject)
    \<and> (IsUnknown (Filter data) \<or> IsNull (Filter data) \<longrightarrow> Read_filter data = ''(&)'')
    \<and> (Scope data = StringValue ''baseObject'' \<longrightarrow> Read_scope data = ScopeBaseObject)
    \<and> (Scope data = StringValue ''singleLevel'' \<longrightarrow>
          Read_scope data = ScopeSingleLevel \<and> Read_scope data \<noteq> ScopeBaseObject)
    \<and> (Scope data = StringValue ''wholeSubtree'' \<longrightarrow>
          Read_scope data = ScopeWholeSubtree \<and> Read_scope data \<noteq> ScopeBaseObject)
    \<and> (\<forall>f. Filter data = StringValue f \<longrightarrow> Read_filter data = f)"
  using assms
  by (simp add: Read_baseDn_def Read_scope_def Read_filter_def ScopeBaseObject_def
      ScopeSingleLevel_def ScopeWholeSubtree_def)

text \<open>
  Three instances: \<^verbatim>\<open>dn\<close> next to a \<^verbatim>\<open>base_dn\<close>, an unknown filter and a list of object
  classes; \<^verbatim>\<open>dn\<close> next to the scope \<^verbatim>\<open>singleLevel\<close> and a filter; \<^verbatim>\<open>dn\<close> next to the
  scope \<^verbatim>\<open>wholeSubtree\<close>.
\<close>

theorem Read_by_dn_witness:
  "Read_baseDn \<lparr>Id_attr = StringNull, DN = StringValue ''cn=alice,dc=example,dc=com'',
       BaseDN = StringValue ''dc=example,dc=com'', Scope = StringNull, Filter = StringUnknown,
       ObjectClasses = Some [''top''], Attributes = None\<rparr> = ''cn=alice,dc=example,dc=com''
   \<and> Read_scope \<lparr>Id_attr = StringNull, DN = StringValue ''cn=alice,dc=example,dc=com'',
       BaseDN = StringValue ''dc=example,dc=com'', Scope = StringNull, Filter = StringUnknown,
       ObjectClasses = Some [''top''], Attributes = None\<rparr> = ScopeBaseObject
   \<and> Read_filter \<lparr>Id_attr = StringNull, DN = StringValue ''cn=alice,dc=example,dc=com'',
       BaseDN = StringValue ''dc=example,dc=com'', Scope = StringNull, Filter = StringUnknown,
       ObjectClasses = Some [''top''], Attributes = None\<rparr> = ''(&)''
   \<and> Read_scope \<lparr>Id_attr = StringNull, DN = StringValue ''cn=alice,dc=example,dc=com'',
       BaseDN = StringNull, Scope = StringValue ''singleLevel'',
       Filter = StringValue ''(mail=*)'', ObjectClasses = None, Attributes = None\<rparr>
     = ScopeSingleLevel
   \<and> Read_filter \<lparr>Id_attr = StringNull, DN = StringValue ''cn=alice,dc=example,dc=com'',
       BaseDN = StringNull, Scope = StringValue ''singleLevel'',
       Filter = StringValue ''(mail=*)'', ObjectClasses = None, Attributes = None\<rparr>
     = ''(mail=*)''
   \<and> Read_scope \<lparr>Id_attr = StringNull, DN = StringValue ''cn=alice,dc=example,dc=com'',
       BaseDN = StringNull, Scope = StringValue ''wholeSubtree'',
       Filter = StringNull, ObjectClasses = None, Attributes = None\<rparr>
     = ScopeWholeSubtree"
  using
    Read_by_dn [of "\<lparr>Id_attr = StringNull, DN = StringValue ''cn=alice,dc=example,dc=com'',
       BaseDN = StringValue ''dc=example,dc=com'', Scope = StringNull, Filter = StringUnknown,
       ObjectClasses = Some [''top''], Attributes = None\<rparr>" "''cn=alice,dc=example,dc=com''"]
    Read_by_dn [of "\<lparr>Id_attr = StringNull, DN = StringValue ''cn=alice,dc=example,dc=com'',
       BaseDN = StringNull, Scope = StringValue ''singleLevel'',
       Filter = StringValue ''(mail=*)'', ObjectClasses = None, Attributes = None\<rparr>"
       "''cn=alice,dc=example,dc=com''"]
    Read_by_dn [of "\<lparr>Id_attr = StringNull, DN = StringValue ''cn=alice,dc=example,dc=com'',
       BaseDN = StringNull, Scope = StringValue ''wholeSubtree'',
       Filter = StringNull, ObjectClasses = None, Attributes = None\<rparr>"
       "''cn=alice,dc=example,dc=com''"]
  by simp

text \<open>
  Claim C1 as the specification words it does not hold: a scope and a filter given next to
  \<^verbatim>\<open>dn\<close> are not overridden. \<^verbatim>\<open>Read\<close> tests \<^verbatim>\<open>data.Scope\<close> and \<^verbatim>\<open>data.Filter\<close> without
  looking at \<^verbatim>\<open>data.DN\<close>, so the search runs over the whole subtree with the given
  filter.
\<close>

theorem Read_by_dn_counterexample:
  "Read_baseDn \<lparr>Id_attr = StringNull, DN = StringValue ''cn=alice,dc=example,dc=com'',
       BaseDN = StringNull, Scope = StringValue ''wholeSubtree'',
       Filter = StringValue ''(cn=bob)'', ObjectClasses = None, Attributes = None\<rparr>
     = ''cn=alice,dc=example,dc=com''
   \<and> Read_scope \<lparr>Id_attr = StringNull, DN = StringValue ''cn=alice,dc=example,dc=com'',
       BaseDN = StringNull, Scope = StringValue ''wholeSubtree'',
       Filter = StringValue ''(cn=bob)'', ObjectClasses = None, Attributes = None\<rparr>
     = ScopeWholeSubtree
   \<and> Read_scope \<lparr>Id_attr = StringNull, DN = StringValue ''cn=alice,dc=example,dc=com'',
       BaseDN = StringNull, Scope = StringValue ''wholeSubtree'',
       Filter = StringValue ''(cn=bob)'', ObjectClasses = None, Attributes = None\<rparr>
     \<noteq> ScopeBaseObject
   \<and> Read_filter \<lparr>Id_attr = StringNull, DN = StringValue ''cn=alice,dc=example,dc=com'',
       BaseDN = StringNull, Scope = StringValue ''wholeSubtree'',
       Filter = StringValue ''(cn=bob)'', ObjectClasses = None, Attributes = None\<rparr>
     = ''(cn=bob)''
   \<and> Read_filter \<lparr>Id_attr = StringNull, DN = StringValue ''cn=alice,dc=example,dc=com'',
       BaseDN = StringNull, Scope = StringValue ''wholeSubtree'',
       Filter = StringValue ''(cn=bob)'', ObjectClasses = None, Attributes = None\<rparr>
     \<noteq> ''(&)''"
  by (simp add: Read_baseDn_def Read_scope_def Read_filter_def ScopeWholeSubtree_def
      ScopeBaseObject_def)

text \<open>
  Claim C5. When the configuration gives no \<^verbatim>\<open>dn\<close> and gives \<^verbatim>\<open>base_dn\<close>, the triple has
  the base DN as its location; its scope is the base object scope when no scope is given,
  and the constant of go-ldap that the given name stands for otherwise; its filter is
  \<^verbatim>\<open>(&)\<close> when no filter is given and the given filter otherwise.
\<close>

theorem Read_by_search:
  assumes "IsUnknown (DN data) \<or> IsNull (DN data)"
    and "BaseDN data = StringValue baseLocation"
  shows "Read_baseDn data = baseLocation
    \<and> (IsUnknown (Scope data) \<or> IsNull (Scope data) \<longrightarrow> Read_scope data = ScopeBaseObject)
    \<and> (Scope data = StringValue ''baseObject'' \<longrightarrow> Read_scope data = ScopeBaseObject)
    \<and> (Scope data = StringValue ''singleLevel'' \<longrightarrow> Read_scope data = ScopeSingleLevel)
    \<and> (Scope data = StringValue ''wholeSubtree'' \<longrightarrow> Read_scope data = ScopeWholeSubtree)
    \<and> (IsUnknown (Filter data) \<or> IsNull (Filter data) \<longrightarrow> Read_filter data = ''(&)'')
    \<and> (\<forall>f. Filter data = StringValue f \<longrightarrow> Read_filter data = f)"
  using assms by (simp add: Read_baseDn_def Read_scope_def Read_filter_def)

text \<open>
  Four instances: a one-level search with a filter, a search with neither scope nor filter,
  and the two other scope names.
\<close>

theorem Read_by_search_witness:
  "Read_baseDn \<lparr>Id_attr = StringNull, DN = StringNull, BaseDN = StringValue ''dc=example,dc=com'',
       Scope = StringValue ''singleLevel'', Filter = StringValue ''(cn=bob)'',
       ObjectClasses = None, Attributes = None\<rparr> = ''dc=example,dc=com''
   \<and> Read_scope \<lparr>Id_attr = StringNull, DN = StringNull, BaseDN = StringValue ''dc=example,dc=com'',
       Scope = StringValue ''singleLevel'', Filter = StringValue ''(cn=bob)'',
       ObjectClasses = None, Attributes = None\<rparr> = ScopeSingleLevel
   \<and> Read_filter \<lparr>Id_attr = StringNull, DN = StringNull, BaseDN = StringValue ''dc=example,dc=com'',
       Scope = StringValue ''singleLevel'', Filter = StringValue ''(cn=bob)'',
       ObjectClasses = None, Attributes = None\<rparr> = ''(cn=bob)''
   \<and> Read_scope \<lparr>Id_attr = StringNull, DN = StringUnknown, BaseDN = StringValue ''dc=example,dc=com'',
       Scope = StringNull, Filter = StringNull,
       ObjectClasses = None, Attributes = None\<rparr> = ScopeBaseObject
   \<and> Read_filter \<lparr>Id_attr = StringNull, DN = StringUnknown, BaseDN = StringValue ''dc=example,dc=com'',
       Scope = StringNull, Filter = StringNull,
       ObjectClasses = None, Attributes = None\<rparr> = ''(&)''
   \<and> Read_scope \<lparr>Id_attr = StringNull, DN = StringNull, BaseDN = StringValue ''dc=example,dc=com'',
       Scope = StringValue ''wholeSubtree'', Filter = StringNull,
       ObjectClasses = None, Attributes = None\<rparr> = ScopeWholeSubtree
   \<and> Read_scope \<lparr>Id_attr = StringNull, DN = StringNull, BaseDN = StringValue ''dc=example,dc=com'',
       Scope = StringValue ''baseObject'', Filter = StringNull,
       ObjectClasses = None, Attributes = None\<rparr> = ScopeBaseObject"
  using
    Read_by_search [of "\<lparr>Id_attr = StringNull, DN = StringNull,
       BaseDN = StringValue ''dc=example,dc=com'', Scope = StringValue ''singleLevel'',
       Filter = StringValue ''(cn=bob)'', ObjectClasses = None, Attributes = None\<rparr>"
       "''dc=example,dc=com''"]
    Read_by_search [of "\<lparr>Id_attr = StringNull, DN = StringUnknown,
       BaseDN = StringValue ''dc=example,dc=com'', Scope = StringNull,
       Filter = StringNull, ObjectClasses = None, Attributes = None\<rparr>"
       "''dc=example,dc=com''"]
    Read_by_search [of "\<lparr>Id_attr = StringNull, DN = StringNull,
       BaseDN = StringValue ''dc=example,dc=com'', Scope = StringValue ''wholeSubtree'',
       Filter = StringNull, ObjectClasses = None, Attributes = None\<rparr>"
       "''dc=example,dc=com''"]
    Read_by_search [of "\<lparr>Id_attr = StringNull, DN = StringNull,
       BaseDN = StringValue ''dc=example,dc=com'', Scope = StringValue ''baseObject'',
       Filter = StringNull, ObjectClasses = None, Attributes = None\<rparr>"
       "''dc=example,dc=com''"]
  by simp

text \<open>
  Claim C9. A scope that is given and is none of the three names resolves to the base
  object scope: the switch leaves the zero value of the local, and that is the constant
  \<^verbatim>\<open>ldap.ScopeBaseObject\<close>.
\<close>

theorem Read_scope_other_name:
  assumes "Scope data = StringValue s"
    and "s \<noteq> ''baseObject''" and "s \<noteq> ''singleLevel''" and "s \<noteq> ''wholeSubtree''"
  shows "Read_scope data = ScopeBaseObject"
  using assms by (simp add: Read_scope_def ScopeBaseObject_def)

text \<open>An instance: the name \<^verbatim>\<open>subtree\<close>.\<close>

theorem Read_scope_other_name_witness:
  "Read_scope \<lparr>Id_attr = StringNull, DN = StringNull, BaseDN = StringValue ''dc=example,dc=com'',
       Scope = StringValue ''subtree'', Filter = StringNull,
       ObjectClasses = None, Attributes = None\<rparr> = ScopeBaseObject"
  by (rule Read_scope_other_name [of _ "''subtree''"]) simp_all

subsection \<open>The single entry\<close>

text \<open>
  Claim C2. When the directory answers the search with no entry, \<^verbatim>\<open>GetEntry\<close> fails with
  the error \<^verbatim>\<open>search returned 0 results\<close>. When it answers with two entries or more,
  \<^verbatim>\<open>GetEntry\<close> fails with the error that prints their number in place of the \<open>0\<close>;
  this error is not the error of the empty answer, and it prints no other number, so the
  caller can tell the two failures apart and read the count.
\<close>

theorem GetEntry_zero_or_many:
  assumes "c (NewSearchRequest baseDn scope 0 0 0 False f [] []) = Inr result"
  shows "(Entries result = [] \<longrightarrow>
            GetEntry c baseDn scope f = Inl (go_error ''search returned 0 results''))
    \<and> (2 \<le> length (Entries result) \<longrightarrow>
            GetEntry c baseDn scope f =
              Inl (go_error (''search returned '' @ fmt_d (length (Entries result)) @ '' results''))
          \<and> GetEntry c baseDn scope f \<noteq> Inl (go_error ''search returned 0 results'')
          \<and> (\<forall>n. GetEntry c baseDn scope f =
                   Inl (go_error (''search returned '' @ fmt_d n @ '' results''))
                 \<longrightarrow> n = length (Entries result)))"
proof (intro conjI impI allI)
  assume "Entries result = []"
  with assms show "GetEntry c baseDn scope f = Inl (go_error ''search returned 0 results'')"
    by (simp add: GetEntry_def Errorf_search_returned_def fmt_d_0)
next
  assume many: "2 \<le> length (Entries result)"
  with assms show eq: "GetEntry c baseDn scope f =
      Inl (go_error (''search returned '' @ fmt_d (length (Entries result)) @ '' results''))"
    by (simp add: GetEntry_def Errorf_search_returned_def)
  show "GetEntry c baseDn scope f \<noteq> Inl (go_error ''search returned 0 results'')"
  proof
    assume "GetEntry c baseDn scope f = Inl (go_error ''search returned 0 results'')"
    with eq have "fmt_d (length (Entries result)) = fmt_d 0"
      by (simp add: fmt_d_0)
    then have "length (Entries result) = 0" by (rule fmt_d_inj)
    with many show False by simp
  qed
  fix n
  assume "GetEntry c baseDn scope f =
      Inl (go_error (''search returned '' @ fmt_d n @ '' results''))"
  with eq have "fmt_d n = fmt_d (length (Entries result))" by simp
  then show "n = length (Entries result)" by (rule fmt_d_inj)
qed

text \<open>Two instances: a one-level search that matches nothing, and one that matches twice.\<close>

theorem GetEntry_zero_or_many_witness:
  "GetEntry (answering (Inr (SearchResult []))) ''dc=example,dc=com'' ScopeSingleLevel ''(cn=bob)''
     = Inl (go_error ''search returned 0 results'')
   \<and> GetEntry (answering (Inr (SearchResult
        [Entry ''cn=bob,ou=a,dc=example,dc=com'' [], Entry ''cn=bob,ou=b,dc=example,dc=com'' []])))
        ''dc=example,dc=com'' ScopeSingleLevel ''(cn=bob)''
     = Inl (go_error ''search returned 2 results'')"
proof -
  have none: "answering (Inr (SearchResult []))
      (NewSearchRequest ''dc=example,dc=com'' ScopeSingleLevel 0 0 0 False ''(cn=bob)'' [] [])
    = Inr (SearchResult [])"
    by (simp add: answering_def)
  have two: "answering (Inr (SearchResult
        [Entry ''cn=bob,ou=a,dc=example,dc=com'' [], Entry ''cn=bob,ou=b,dc=example,dc=com'' []]))
      (NewSearchRequest ''dc=example,dc=com'' ScopeSingleLevel 0 0 0 False ''(cn=bob)'' [] [])
    = Inr (SearchResult
        [Entry ''cn=bob,ou=a,dc=example,dc=com'' [], Entry ''cn=bob,ou=b,dc=example,dc=com'' []])"
    by (simp add: answering_def)
  from GetEntry_zero_or_many [of "answering (Inr (SearchResult []))" "''dc=example,dc=com''"
      ScopeSingleLevel "''(cn=bob)''" "SearchResult []", OF none, THEN conjunct1]
  have "GetEntry (answering (Inr (SearchResult []))) ''dc=example,dc=com'' ScopeSingleLevel
      ''(cn=bob)'' = Inl (go_error ''search returned 0 results'')"
    by simp
  moreover from GetEntry_zero_or_many [of "answering (Inr (SearchResult
        [Entry ''cn=bob,ou=a,dc=example,dc=com'' [], Entry ''cn=bob,ou=b,dc=example,dc=com'' []]))"
      "''dc=example,dc=com''" ScopeSingleLevel "''(cn=bob)''" "SearchResult
        [Entry ''cn=bob,ou=a,dc=example,dc=com'' [], Entry ''cn=bob,ou=b,dc=example,dc=com'' []]",
      OF two, THEN conjunct2, THEN mp, THEN conjunct1]
  have "GetEntry (answering (Inr (SearchResult
        [Entry ''cn=bob,ou=a,dc=example,dc=com'' [], Entry ''cn=bob,ou=b,dc=example,dc=com'' []])))
        ''dc=example,dc=com'' ScopeSingleLevel ''(cn=bob)''
     = Inl (go_error ''search returned 2 results'')"
    by (simp add: fmt_d_2 [unfolded numeral_2_eq_2])
  ultimately show ?thesis by (rule conjI)
qed

text \<open>
  Claim C3. When the directory answers the search with exactly one entry, \<^verbatim>\<open>GetEntry\<close>
  succeeds and returns that entry: the same DN, the same attributes in the same order,
  each with the same values.
\<close>

theorem GetEntry_single:
  assumes "c (NewSearchRequest baseDn scope 0 0 0 False f [] []) = Inr result"
    and "Entries result = [entry]"
  shows "GetEntry c baseDn scope f = Inr entry"
  using assms by (simp add: GetEntry_def)

text \<open>An instance: the base object search for an entry with two attributes.\<close>

theorem GetEntry_single_witness:
  "GetEntry (answering (Inr (SearchResult [Entry ''cn=alice,dc=example,dc=com''
        [\<lparr>Name = ''objectClass'', Values = [''top'', ''person'']\<rparr>,
         \<lparr>Name = ''mail'', Values = [''alice@example.com'']\<rparr>]])))
      ''cn=alice,dc=example,dc=com'' ScopeBaseObject ''(&)''
   = Inr (Entry ''cn=alice,dc=example,dc=com''
        [\<lparr>Name = ''objectClass'', Values = [''top'', ''person'']\<rparr>,
         \<lparr>Name = ''mail'', Values = [''alice@example.com'']\<rparr>])"
proof (rule GetEntry_single)
  show "answering (Inr (SearchResult [Entry ''cn=alice,dc=example,dc=com''
        [\<lparr>Name = ''objectClass'', Values = [''top'', ''person'']\<rparr>,
         \<lparr>Name = ''mail'', Values = [''alice@example.com'']\<rparr>]]))
      (NewSearchRequest ''cn=alice,dc=example,dc=com'' ScopeBaseObject 0 0 0 False ''(&)'' [] [])
    = Inr (SearchResult [Entry ''cn=alice,dc=example,dc=com''
        [\<lparr>Name = ''objectClass'', Values = [''top'', ''person'']\<rparr>,
         \<lparr>Name = ''mail'', Values = [''alice@example.com'']\<rparr>]])"
    by (simp add: answering_def)
  show "Entries (SearchResult [Entry ''cn=alice,dc=example,dc=com''
        [\<lparr>Name = ''objectClass'', Values = [''top'', ''person'']\<rparr>,
         \<lparr>Name = ''mail'', Values = [''alice@example.com'']\<rparr>]])
    = [Entry ''cn=alice,dc=example,dc=com''
        [\<lparr>Name = ''objectClass'', Values = [''top'', ''person'']\<rparr>,
         \<lparr>Name = ''mail'', Values = [''alice@example.com'']\<rparr>]]"
    by simp
qed

subsection \<open>Storing the entry\<close>

lemma map_of_state_Read_attribute:
  "map_of_state (Read_attribute st a) n =
     (if Name a \<noteq> ''objectClass'' \<and> Name a = n then Some (Values a) else map_of_state st n)"
  by (simp add: Read_attribute_def map_of_state_def)

lemma object_classes_Read_attribute:
  "state_object_classes (Read_attribute st a) =
     (if Name a = ''objectClass'' then Some (Values a) else state_object_classes st)"
  by (simp add: Read_attribute_def)

lemma dn_Read_attribute:
  "state_dn (Read_attribute st a) = state_dn st \<and> state_id (Read_attribute st a) = state_id st"
  by (simp add: Read_attribute_def)

lemma dn_Read_attributes:
  "state_dn (Read_attributes st attrs) = state_dn st
     \<and> state_id (Read_attributes st attrs) = state_id st"
  by (induction attrs arbitrary: st) (simp_all add: dn_Read_attribute)

lemma Read_attributes_append:
  "Read_attributes st (xs @ ys) = Read_attributes (Read_attributes st xs) ys"
  by (induction xs arbitrary: st) simp_all

text \<open>The loop leaves alone a key that no attribute has, and the key \<^verbatim>\<open>objectClass\<close>.\<close>

lemma map_of_state_Read_attributes_other:
  "n \<notin> Name ` set attrs \<or> n = ''objectClass'' \<Longrightarrow>
     map_of_state (Read_attributes st attrs) n = map_of_state st n"
  by (induction attrs arbitrary: st) (auto simp: map_of_state_Read_attribute)

lemma object_classes_Read_attributes_other:
  "''objectClass'' \<notin> Name ` set attrs \<Longrightarrow>
     state_object_classes (Read_attributes st attrs) = state_object_classes st"
  by (induction attrs arbitrary: st) (auto simp: object_classes_Read_attribute)

text \<open>What the loop stores for an attribute whose name no later attribute has.\<close>

lemma Read_attributes_last:
  assumes "attrs = before @ a # after" and "Name a \<notin> Name ` set after"
  shows "(Name a = ''objectClass'' \<longrightarrow>
            state_object_classes (Read_attributes st attrs) = Some (Values a))
       \<and> (Name a \<noteq> ''objectClass'' \<longrightarrow>
            map_of_state (Read_attributes st attrs) (Name a) = Some (Values a))"
proof -
  let ?st = "Read_attribute (Read_attributes st before) a"
  have split: "Read_attributes st attrs = Read_attributes ?st after"
    by (simp add: assms(1) Read_attributes_append)
  show ?thesis
  proof (cases "Name a = ''objectClass''")
    case True
    with assms(2) have "state_object_classes (Read_attributes ?st after) = state_object_classes ?st"
      by (intro object_classes_Read_attributes_other) simp
    with True split show ?thesis by (simp add: object_classes_Read_attribute)
  next
    case False
    from assms(2) have "map_of_state (Read_attributes ?st after) (Name a) = map_of_state ?st (Name a)"
      by (intro map_of_state_Read_attributes_other) simp
    with False split show ?thesis by (simp add: map_of_state_Read_attribute)
  qed
qed

lemma map_of_state_SetAttribute_Root:
  "map_of_state (SetAttribute st (Root p) (GoString s)) = map_of_state st"
  by (simp add: map_of_state_def)

lemma object_classes_SetAttribute_Root:
  "state_object_classes (SetAttribute st (Root p) (GoString s)) = state_object_classes st"
  by simp

lemma dn_Read_entry:
  "state_dn (Read_entry st entry) = StringValue (Entry_DN entry)
     \<and> state_id (Read_entry st entry) = StringValue (Entry_DN entry)"
  by (simp add: Read_entry_def Let_def dn_Read_attributes)

text \<open>
  Claim C4. For every entry and every attribute of it that is the last of its name (each
  one, when the names are unique): if its name is exactly \<^verbatim>\<open>objectClass\<close>, its values
  become the object classes of the state; otherwise its values are stored in the attributes
  map under its name, in their order. The key \<^verbatim>\<open>objectClass\<close> of the map is left as it
  was, so it is absent when the map was null or lacked it.
\<close>

theorem Read_entry_attributes:
  assumes "Entry_Attributes entry = before @ attribute # after"
    and "Name attribute \<notin> Name ` set after"
  shows "(Name attribute = ''objectClass'' \<longrightarrow>
            state_object_classes (Read_entry st entry) = Some (Values attribute))
       \<and> (Name attribute \<noteq> ''objectClass'' \<longrightarrow>
            map_of_state (Read_entry st entry) (Name attribute) = Some (Values attribute))
       \<and> map_of_state (Read_entry st entry) ''objectClass'' = map_of_state st ''objectClass''"
  using Read_attributes_last [OF assms]
  by (simp add: Read_entry_def Let_def map_of_state_Read_attributes_other
      map_of_state_SetAttribute_Root del: SetAttribute.simps)

text \<open>
  The entry with \<^verbatim>\<open>objectClass = [top, person]\<close> and \<^verbatim>\<open>cn = [alice]\<close>, stored into the null
  state, at each of its two attributes.
\<close>

theorem Read_entry_attributes_witness:
  "state_object_classes (Read_entry null_State (Entry ''cn=alice,dc=example,dc=com''
        [\<lparr>Name = ''objectClass'', Values = [''top'', ''person'']\<rparr>,
         \<lparr>Name = ''cn'', Values = [''alice'']\<rparr>])) = Some [''top'', ''person'']
   \<and> map_of_state (Read_entry null_State (Entry ''cn=alice,dc=example,dc=com''
        [\<lparr>Name = ''objectClass'', Values = [''top'', ''person'']\<rparr>,
         \<lparr>Name = ''cn'', Values = [''alice'']\<rparr>])) ''cn'' = Some [''alice'']
   \<and> map_of_state (Read_entry null_State (Entry ''cn=alice,dc=example,dc=com''
        [\<lparr>Name = ''objectClass'', Values = [''top'', ''person'']\<rparr>,
         \<lparr>Name = ''cn'', Values = [''alice'']\<rparr>])) ''objectClass'' = None"
  using
    Read_entry_attributes [of "Entry ''cn=alice,dc=example,dc=com''
        [\<lparr>Name = ''objectClass'', Values = [''top'', ''person'']\<rparr>,
         \<lparr>Name = ''cn'', Values = [''alice'']\<rparr>]" "[]"
      "\<lparr>Name = ''objectClass'', Values = [''top'', ''person'']\<rparr>"
      "[\<lparr>Name = ''cn'', Values = [''alice'']\<rparr>]" null_State]
    Read_entry_attributes [of "Entry ''cn=alice,dc=example,dc=com''
        [\<lparr>Name = ''objectClass'', Values = [''top'', ''person'']\<rparr>,
         \<lparr>Name = ''cn'', Values = [''alice'']\<rparr>]"
      "[\<lparr>Name = ''objectClass'', Values = [''top'', ''person'']\<rparr>]"
      "\<lparr>Name = ''cn'', Values = [''alice'']\<rparr>" "[]" null_State]
  by (simp add: map_of_state_def null_State_def)

text \<open>
  Claim C10. When no attribute of the entry is named exactly \<^verbatim>\<open>objectClass\<close>, the object
  classes of the state are left as they were (null stays null, no empty list is written),
  and every attribute that is the last of its name is stored in the attributes map.
\<close>

theorem Read_entry_without_objectClass:
  assumes "''objectClass'' \<notin> Name ` set (Entry_Attributes entry)"
  shows "state_object_classes (Read_entry st entry) = state_object_classes st
    \<and> (\<forall>before attribute after.
          Entry_Attributes entry = before @ attribute # after \<and> Name attribute \<notin> Name ` set after
          \<longrightarrow> map_of_state (Read_entry st entry) (Name attribute) = Some (Values attribute))"
proof (intro conjI allI impI)
  show "state_object_classes (Read_entry st entry) = state_object_classes st"
    using assms
    by (simp add: Read_entry_def Let_def object_classes_Read_attributes_other
        object_classes_SetAttribute_Root del: SetAttribute.simps)
next
  fix before attribute after
  assume a: "Entry_Attributes entry = before @ attribute # after \<and> Name attribute \<notin> Name ` set after"
  with assms have "Name attribute \<noteq> ''objectClass''" by auto
  with a Read_attributes_last [of "Entry_Attributes entry" before attribute after]
  show "map_of_state (Read_entry st entry) (Name attribute) = Some (Values attribute)"
    by (simp add: Read_entry_def Let_def)
qed

text \<open>An entry with \<^verbatim>\<open>cn\<close> and \<^verbatim>\<open>mail\<close> only, stored into the null state.\<close>

theorem Read_entry_without_objectClass_witness:
  "state_object_classes (Read_entry null_State (Entry ''cn=alice,dc=example,dc=com''
        [\<lparr>Name = ''cn'', Values = [''alice'']\<rparr>,
         \<lparr>Name = ''mail'', Values = [''alice@example.com'']\<rparr>])) = None
   \<and> map_of_state (Read_entry null_State (Entry ''cn=alice,dc=example,dc=com''
        [\<lparr>Name = ''cn'', Values = [''alice'']\<rparr>,
         \<lparr>Name = ''mail'', Values = [''alice@example.com'']\<rparr>])) ''cn'' = Some [''alice'']"
proof -
  have h: "''objectClass'' \<notin> Name ` set (Entry_Attributes (Entry ''cn=alice,dc=example,dc=com''
        [\<lparr>Name = ''cn'', Values = [''alice'']\<rparr>,
         \<lparr>Name = ''mail'', Values = [''alice@example.com'']\<rparr>]))"
    by simp
  have s: "Entry_Attributes (Entry ''cn=alice,dc=example,dc=com''
        [\<lparr>Name = ''cn'', Values = [''alice'']\<rparr>,
         \<lparr>Name = ''mail'', Values = [''alice@example.com'']\<rparr>])
      = [] @ \<lparr>Name = ''cn'', Values = [''alice'']\<rparr>
          # [\<lparr>Name = ''mail'', Values = [''alice@example.com'']\<rparr>]
      \<and> Name \<lparr>Name = ''cn'', Values = [''alice'']\<rparr>
        \<notin> Name ` set [\<lparr>Name = ''mail'', Values = [''alice@example.com'']\<rparr>]"
    by simp
  from Read_entry_without_objectClass [OF h, of null_State] s
  have "state_object_classes (Read_entry null_State (Entry ''cn=alice,dc=example,dc=com''
        [\<lparr>Name = ''cn'', Values = [''alice'']\<rparr>,
         \<lparr>Name = ''mail'', Values = [''alice@example.com'']\<rparr>]))
       = state_object_classes null_State
    \<and> map_of_state (Read_entry null_State (Entry ''cn=alice,dc=example,dc=com''
        [\<lparr>Name = ''cn'', Values = [''alice'']\<rparr>,
         \<lparr>Name = ''mail'', Values = [''alice@example.com'']\<rparr>]))
        (Name \<lparr>Name = ''cn'', Values = [''alice'']\<rparr>)
       = Some (Values \<lparr>Name = ''cn'', Values = [''alice'']\<rparr>)"
    by blast
  then show ?thesis by (simp add: null_State_def)
qed

subsection \<open>\<^verbatim>\<open>Read\<close> as a whole\<close>

text \<open>
  Claim C8. When decoding the configuration reports no error and \<^verbatim>\<open>GetEntry\<close> returns an
  entry, \<^verbatim>\<open>Read\<close> leaves the DN of that entry, as it is, in both \<^verbatim>\<open>dn\<close> and \<^verbatim>\<open>id\<close> of
  the state.
\<close>

theorem Read_dn_and_id:
  assumes "\<not> HasError (Read_diags request response)"
    and "GetEntry (conn L) (Read_baseDn (Config_Get request)) (Read_scope (Config_Get request))
           (Read_filter (Config_Get request)) = Inr entry"
  shows "state_dn (State (Read L request response)) = StringValue (Entry_DN entry)
       \<and> state_id (State (Read L request response)) = StringValue (Entry_DN entry)"
  using assms by (simp add: Read_def Let_def dn_Read_entry)

text \<open>An instance: reading \<^verbatim>\<open>cn=alice,dc=example,dc=com\<close> by its DN.\<close>

theorem Read_dn_and_id_witness:
  "state_dn (State (Read
       \<lparr>conn = answering (Inr (SearchResult [Entry ''cn=alice,dc=example,dc=com''
          [\<lparr>Name = ''objectClass'', Values = [''top'', ''person'']\<rparr>,
           \<lparr>Name = ''mail'', Values = [''alice@example.com'']\<rparr>]]))\<rparr>
       (request_of \<lparr>Id_attr = StringNull, DN = StringValue ''cn=alice,dc=example,dc=com'',
          BaseDN = StringNull, Scope = StringNull, Filter = StringNull,
          ObjectClasses = None, Attributes = None\<rparr>)
       empty_response)) = StringValue ''cn=alice,dc=example,dc=com''
   \<and> state_id (State (Read
       \<lparr>conn = answering (Inr (SearchResult [Entry ''cn=alice,dc=example,dc=com''
          [\<lparr>Name = ''objectClass'', Values = [''top'', ''person'']\<rparr>,
           \<lparr>Name = ''mail'', Values = [''alice@example.com'']\<rparr>]]))\<rparr>
       (request_of \<lparr>Id_attr = StringNull, DN = StringValue ''cn=alice,dc=example,dc=com'',
          BaseDN = StringNull, Scope = StringNull, Filter = StringNull,
          ObjectClasses = None, Attributes = None\<rparr>)
       empty_response)) = StringValue ''cn=alice,dc=example,dc=com''"
proof -
  let ?L = "\<lparr>conn = answering (Inr (SearchResult [Entry ''cn=alice,dc=example,dc=com''
          [\<lparr>Name = ''objectClass'', Values = [''top'', ''person'']\<rparr>,
           \<lparr>Name = ''mail'', Values = [''alice@example.com'']\<rparr>]]))\<rparr>"
  let ?request = "request_of \<lparr>Id_attr = StringNull,
          DN = StringValue ''cn=alice,dc=example,dc=com'',
          BaseDN = StringNull, Scope = StringNull, Filter = StringNull,
          ObjectClasses = None, Attributes = None\<rparr>"
  have ok: "\<not> HasError (Read_diags ?request empty_response)"
    by (simp add: Read_diags_def request_of_def empty_response_def)
  have got: "GetEntry (conn ?L) (Read_baseDn (Config_Get ?request))
      (Read_scope (Config_Get ?request)) (Read_filter (Config_Get ?request))
     = Inr (Entry ''cn=alice,dc=example,dc=com''
          [\<lparr>Name = ''objectClass'', Values = [''top'', ''person'']\<rparr>,
           \<lparr>Name = ''mail'', Values = [''alice@example.com'']\<rparr>])"
    by (simp add: GetEntry_def answering_def)
  from Read_dn_and_id [OF ok got] show ?thesis by simp
qed

text \<open>
  Claim C6, as the code has it. Computing the triple cannot fail: the three locals are
  total functions of the model, with no check of the model and no error of their own.
  \<^verbatim>\<open>Read\<close> ends with an error diagnostic exactly when decoding the configuration reported
  one or \<^verbatim>\<open>GetEntry\<close> returned an error; so it succeeds for every specification, inside or
  outside what the schema's validators accept, for which the search returns one entry.
\<close>

theorem Read_fails_iff:
  "HasError (Diagnostics (Read L request response)) =
     (HasError (Read_diags request response)
      \<or> isl (GetEntry (conn L) (Read_baseDn (Config_Get request)) (Read_scope (Config_Get request))
           (Read_filter (Config_Get request))))"
  by (simp add: Read_def Let_def HasError_AddError split: sum.split)

text \<open>An instance: a one-level search that matches nothing ends with an error diagnostic.\<close>

theorem Read_fails_iff_witness:
  "HasError (Diagnostics (Read \<lparr>conn = answering (Inr (SearchResult []))\<rparr>
       (request_of \<lparr>Id_attr = StringNull, DN = StringNull,
          BaseDN = StringValue ''dc=example,dc=com'', Scope = StringValue ''singleLevel'',
          Filter = StringValue ''(cn=bob)'', ObjectClasses = None, Attributes = None\<rparr>)
       empty_response))"
proof -
  let ?request = "request_of \<lparr>Id_attr = StringNull, DN = StringNull,
          BaseDN = StringValue ''dc=example,dc=com'', Scope = StringValue ''singleLevel'',
          Filter = StringValue ''(cn=bob)'', ObjectClasses = None, Attributes = None\<rparr>"
  have "isl (GetEntry (conn \<lparr>conn = answering (Inr (SearchResult []))\<rparr>)
       (Read_baseDn (Config_Get ?request)) (Read_scope (Config_Get ?request))
       (Read_filter (Config_Get ?request)))"
    by (simp add: GetEntry_def answering_def)
  then show ?thesis by (simp only: Read_fails_iff simp_thms)
qed

text \<open>
  Claim C6 as the specification words it does not hold: there is no defensive check. This
  configuration gives both \<^verbatim>\<open>dn\<close> and \<^verbatim>\<open>base_dn\<close>, and a scope next to \<^verbatim>\<open>dn\<close> whose name
  is none of the three; the schema's validators reject each of the three. \<^verbatim>\<open>Read\<close>
  resolves it to the DN with the base object scope, reports no error and stores the entry.
\<close>

theorem Read_invalid_specification_counterexample:
  "Read_baseDn \<lparr>Id_attr = StringNull, DN = StringValue ''cn=alice,dc=example,dc=com'',
       BaseDN = StringValue ''dc=example,dc=com'', Scope = StringValue ''subtree'',
       Filter = StringNull, ObjectClasses = None, Attributes = None\<rparr>
     = ''cn=alice,dc=example,dc=com''
   \<and> Read_scope \<lparr>Id_attr = StringNull, DN = StringValue ''cn=alice,dc=example,dc=com'',
       BaseDN = StringValue ''dc=example,dc=com'', Scope = StringValue ''subtree'',
       Filter = StringNull, ObjectClasses = None, Attributes = None\<rparr> = ScopeBaseObject
   \<and> \<not> HasError (Diagnostics (Read
       \<lparr>conn = answering (Inr (SearchResult [Entry ''cn=alice,dc=example,dc=com''
          [\<lparr>Name = ''objectClass'', Values = [''top'', ''person'']\<rparr>]]))\<rparr>
       (request_of \<lparr>Id_attr = StringNull, DN = StringValue ''cn=alice,dc=example,dc=com'',
          BaseDN = StringValue ''dc=example,dc=com'', Scope = StringValue ''subtree'',
          Filter = StringNull, ObjectClasses = None, Attributes = None\<rparr>)
       empty_response))
   \<and> state_dn (State (Read
       \<lparr>conn = answering (Inr (SearchResult [Entry ''cn=alice,dc=example,dc=com''
          [\<lparr>Name = ''objectClass'', Values = [''top'', ''person'']\<rparr>]]))\<rparr>
       (request_of \<lparr>Id_attr = StringNull, DN = StringValue ''cn=alice,dc=example,dc=com'',
          BaseDN = StringValue ''dc=example,dc=com'', Scope = StringValue ''subtree'',
          Filter = StringNull, ObjectClasses = None, Attributes = None\<rparr>)
       empty_response)) = StringValue ''cn=alice,dc=example,dc=com''"
  by (simp add: Read_def Read_diags_def Read_baseDn_def Read_scope_def Read_filter_def
      GetEntry_def answering_def request_of_def empty_response_def null_State_def
      Read_entry_def Read_attribute_def ScopeBaseObject_def)

text \<open>
  Claim C7, as the code has it. When \<^verbatim>\<open>Read\<close> ends with an error diagnostic (from
  decoding, from the connection, or from a number of entries other than one), the state
  is the state it was given. When it ends without one, \<^verbatim>\<open>GetEntry\<close> returned an entry
  and the state is the given state with that entry stored: \<^verbatim>\<open>dn\<close> and \<^verbatim>\<open>id\<close> always, the
  object classes and the keys of the attributes map as far as the entry has them.
\<close>

theorem Read_state_on_failure_and_success:
  "(HasError (Diagnostics (Read L request response)) \<longrightarrow>
      State (Read L request response) = State response)
   \<and> (\<not> HasError (Diagnostics (Read L request response)) \<longrightarrow>
        (\<exists>entry. GetEntry (conn L) (Read_baseDn (Config_Get request))
                   (Read_scope (Config_Get request)) (Read_filter (Config_Get request)) = Inr entry
           \<and> State (Read L request response) = Read_entry (State response) entry
           \<and> state_dn (State (Read L request response)) = StringValue (Entry_DN entry)
           \<and> state_id (State (Read L request response)) = StringValue (Entry_DN entry)))"
  by (simp add: Read_def Let_def HasError_AddError dn_Read_entry split: sum.split)

text \<open>
  Two instances: a read that the directory refuses leaves the null state, and a read that
  finds its entry stores the DN.
\<close>

theorem Read_state_on_failure_and_success_witness:
  "State (Read \<lparr>conn = answering (Inl (go_error ''LDAP Result Code 32: No Such Object''))\<rparr>
       (request_of \<lparr>Id_attr = StringNull, DN = StringValue ''cn=alice,dc=example,dc=com'',
          BaseDN = StringNull, Scope = StringNull, Filter = StringNull,
          ObjectClasses = None, Attributes = None\<rparr>)
       empty_response) = null_State
   \<and> state_dn (State (Read
       \<lparr>conn = answering (Inr (SearchResult [Entry ''cn=alice,dc=example,dc=com''
          [\<lparr>Name = ''objectClass'', Values = [''top'', ''person'']\<rparr>]]))\<rparr>
       (request_of \<lparr>Id_attr = StringNull, DN = StringValue ''cn=alice,dc=example,dc=com'',
          BaseDN = StringNull, Scope = StringNull, Filter = StringNull,
          ObjectClasses = None, Attributes = None\<rparr>)
       empty_response)) = StringValue ''cn=alice,dc=example,dc=com''"
proof
  have "HasError (Diagnostics (Read
       \<lparr>conn = answering (Inl (go_error ''LDAP Result Code 32: No Such Object''))\<rparr>
       (request_of \<lparr>Id_attr = StringNull, DN = StringValue ''cn=alice,dc=example,dc=com'',
          BaseDN = StringNull, Scope = StringNull, Filter = StringNull,
          ObjectClasses = None, Attributes = None\<rparr>)
       empty_response))"
    by (simp add: Read_def Read_diags_def GetEntry_def answering_def request_of_def
        empty_response_def HasError_AddError)
  with Read_state_on_failure_and_success [THEN conjunct1, THEN mp]
  have "State (Read
       \<lparr>conn = answering (Inl (go_error ''LDAP Result Code 32: No Such Object''))\<rparr>
       (request_of \<lparr>Id_attr = StringNull, DN = StringValue ''cn=alice,dc=example,dc=com'',
          BaseDN = StringNull, Scope = StringNull, Filter = StringNull,
          ObjectClasses = None, Attributes = None\<rparr>)
       empty_response) = State empty_response" .
  then show "State (Read
       \<lparr>conn = answering (Inl (go_error ''LDAP Result Code 32: No Such Object''))\<rparr>
       (request_of \<lparr>Id_attr = StringNull, DN = StringValue ''cn=alice,dc=example,dc=com'',
          BaseDN = StringNull, Scope = StringNull, Filter = StringNull,
          ObjectClasses = None, Attributes = None\<rparr>)
       empty_response) = null_State"
    by (simp add: empty_response_def)
next
  let ?L = "\<lparr>conn = answering (Inr (SearchResult [Entry ''cn=alice,dc=example,dc=com''
          [\<lparr>Name = ''objectClass'', Values = [''top'', ''person'']\<rparr>]]))\<rparr>"
  let ?request = "request_of \<lparr>Id_attr = StringNull,
          DN = StringValue ''cn=alice,dc=example,dc=com'',
          BaseDN = StringNull, Scope = StringNull, Filter = StringNull,
          ObjectClasses = None, Attributes = None\<rparr>"
  have got: "GetEntry (conn ?L) (Read_baseDn (Config_Get ?request))
      (Read_scope (Config_Get ?request)) (Read_filter (Config_Get ?request))
    = Inr (Entry ''cn=alice,dc=example,dc=com''
          [\<lparr>Name = ''objectClass'', Values = [''top'', ''person'']\<rparr>])"
    by (simp add: GetEntry_def answering_def)
  have "\<not> HasError (Diagnostics (Read ?L ?request empty_response))"
    by (simp add: Read_def Read_diags_def GetEntry_def answering_def request_of_def
        empty_response_def)
  with Read_state_on_failure_and_success [THEN conjunct2, THEN mp]
  obtain entry where e1: "GetEntry (conn ?L) (Read_baseDn (Config_Get ?request))
      (Read_scope (Config_Get ?request)) (Read_filter (Config_Get ?request)) = Inr entry"
    and e2: "state_dn (State (Read ?L ?request empty_response)) = StringValue (Entry_DN entry)"
    by blast
  from e1 [unfolded got] have "Entry_DN entry = ''cn=alice,dc=example,dc=com''"
    by auto
  with e2 show "state_dn (State (Read ?L ?request empty_response))
      = StringValue ''cn=alice,dc=example,dc=com''"
    by (simp only:)
qed

text \<open>
  Claim C7 as the specification words it does not hold: a read can succeed and leave a
  field of the object unset. The entry found here has \<^verbatim>\<open>cn\<close> and no \<^verbatim>\<open>objectClass\<close>;
  \<^verbatim>\<open>Read\<close> reports no error and writes \<^verbatim>\<open>dn\<close>, and the object classes stay null.
\<close>

theorem Read_partly_written_counterexample:
  "\<not> HasError (Diagnostics (Read
       \<lparr>conn = answering (Inr (SearchResult [Entry ''cn=alice,dc=example,dc=com''
          [\<lparr>Name = ''cn'', Values = [''alice'']\<rparr>]]))\<rparr>
       (request_of \<lparr>Id_attr = StringNull, DN = StringValue ''cn=alice,dc=example,dc=com'',
          BaseDN = StringNull, Scope = StringNull, Filter = StringNull,
          ObjectClasses = None, Attributes = None\<rparr>)
       empty_response))
   \<and> state_dn (State (Read
       \<lparr>conn = answering (Inr (SearchResult [Entry ''cn=alice,dc=example,dc=com''
          [\<lparr>Name = ''cn'', Values = [''alice'']\<rparr>]]))\<rparr>
       (request_of \<lparr>Id_attr = StringNull, DN = StringValue ''cn=alice,dc=example,dc=com'',
          BaseDN = StringNull, Scope = StringNull, Filter = StringNull,
          ObjectClasses = None, Attributes = None\<rparr>)
       empty_response)) = StringValue ''cn=alice,dc=example,dc=com''
   \<and> state_object_classes (State (Read
       \<lparr>conn = answering (Inr (SearchResult [Entry ''cn=alice,dc=example,dc=com''
          [\<lparr>Name = ''cn'', Values = [''alice'']\<rparr>]]))\<rparr>
       (request_of \<lparr>Id_attr = StringNull, DN = StringValue ''cn=alice,dc=example,dc=com'',
          BaseDN = StringNull, Scope = StringNull, Filter = StringNull,
          ObjectClasses = None, Attributes = None\<rparr>)
       empty_response)) = None"
  by (simp add: Read_def Read_diags_def Read_baseDn_def Read_scope_def Read_filter_def
      GetEntry_def answering_def request_of_def empty_response_def null_State_def
      Read_entry_def Read_attribute_def ScopeBaseObject_def)

end
